theory Spec2Isabelle
  imports Main "HOL-Library.Sublist" "HOL-Library.AList"
begin

section \<open>Python values, exceptions and data frames\<close>

text \<open>
  The values that travel through \<^verbatim>\<open>table.py\<close>: callback payloads of the web framework
  (\<^verbatim>\<open>None\<close>, integers, strings, lists, dicts with string keys) and the keyword
  arguments of a captured callable. A dict is an association list; a well-formed one has
  distinct keys and \<open>map_of\<close> reads it.
\<close>

datatype pyval =
    PNone
  | PInt int
  | PStr string
  | PList "pyval list"
  | PDict "(string \<times> pyval) list"

text \<open>
  Every \<^verbatim>\<open>raise\<close> is a value. A \<open>ValidationError\<close> is the validation library's
  error: the failures it collected, each under the name of its field. \<open>Raised\<close> stands
  for any other exception, such as one thrown by a user-supplied callable.
\<close>

datatype validation_failure =
    InvalidDiscriminator string string
  | MissingDiscriminator string
  | UnexpectedValue string
  | NotAValidList
  | NotAValidDict
  | FieldRequired

datatype exn =
    KeyError
  | IndexError
  | TypeError
  | ValueError string
  | ValidationError "(string \<times> validation_failure) list"
  | Raised string

text \<open>Python truthiness, as \<^verbatim>\<open>not v\<close> computes it.\<close>

fun truthy :: "pyval \<Rightarrow> bool" where
  "truthy PNone = False"
| "truthy (PInt n) = (n \<noteq> 0)"
| "truthy (PStr s) = (s \<noteq> [])"
| "truthy (PList xs) = (xs \<noteq> [])"
| "truthy (PDict kvs) = (kvs \<noteq> [])"

text \<open>
  Reading a sequence at an integer position: a position from \<open>0\<close> counts from the
  front, a negative one from the back, and anything else is an \<^verbatim>\<open>IndexError\<close>.
\<close>

definition py_index :: "'a list \<Rightarrow> int \<Rightarrow> exn + 'a" where
  "py_index xs i =
     (if 0 \<le> i \<and> i < int (length xs) then Inr (xs ! nat i)
      else if i < 0 \<and> - int (length xs) \<le> i then Inr (xs ! nat (int (length xs) + i))
      else Inl IndexError)"

text \<open>
  The subscript \<^verbatim>\<open>v[k]\<close>: a dict is read by key (\<^verbatim>\<open>KeyError\<close> when absent,
  \<^verbatim>\<open>TypeError\<close> for an unhashable key), a list or a string by integer position, and
  \<^verbatim>\<open>None\<close> and integers are not subscriptable.
\<close>

fun py_getitem :: "pyval \<Rightarrow> pyval \<Rightarrow> exn + pyval" where
  "py_getitem (PDict kvs) (PStr k) =
     (case map_of kvs k of None \<Rightarrow> Inl KeyError | Some v \<Rightarrow> Inr v)"
| "py_getitem (PDict kvs) PNone = Inl KeyError"
| "py_getitem (PDict kvs) (PInt i) = Inl KeyError"
| "py_getitem (PDict kvs) (PList ys) = Inl TypeError"
| "py_getitem (PDict kvs) (PDict ys) = Inl TypeError"
| "py_getitem (PList xs) (PInt i) = py_index xs i"
| "py_getitem (PList xs) k = Inl TypeError"
| "py_getitem (PStr s) (PInt i) =
     (case py_index s i of Inl e \<Rightarrow> Inl e | Inr c \<Rightarrow> Inr (PStr [c]))"
| "py_getitem (PStr s) k = Inl TypeError"
| "py_getitem PNone k = Inl TypeError"
| "py_getitem (PInt n) k = Inl TypeError"

text \<open>
  A data frame: its column labels and its rows. \<^verbatim>\<open>pd.DataFrame()\<close> is the frame with
  no columns and no rows.
\<close>

record DataFrame =
  columns :: "string list"
  rows :: "pyval list list"


text \<open>A keyword argument of a captured callable is a plain value or a data frame.\<close>

datatype arg = Val pyval | Frame DataFrame

text \<open>Substring test, the meaning of \<^verbatim>\<open>s in t\<close> on two strings.\<close>

fun contains_str :: "string \<Rightarrow> string \<Rightarrow> bool" where
  "contains_str s [] = (s = [])"
| "contains_str s (c # cs) = (prefix s (c # cs) \<or> contains_str s cs)"

text \<open>
  The membership test \<^verbatim>\<open>target in container\<close> for a string \<open>target\<close>: element of a
  list, key of a dict, substring of a string, column label of a data frame;
  \<^verbatim>\<open>None\<close> and integers are not iterable.
\<close>

fun py_contains :: "arg \<Rightarrow> string \<Rightarrow> exn + bool" where
  "py_contains (Val (PList xs)) target = Inr (PStr target \<in> set xs)"
| "py_contains (Val (PDict kvs)) target = Inr (target \<in> set (map fst kvs))"
| "py_contains (Val (PStr s)) target = Inr (contains_str target s)"
| "py_contains (Val PNone) target = Inl TypeError"
| "py_contains (Val (PInt n)) target = Inl TypeError"
| "py_contains (Frame df) target = Inr (target \<in> set (columns df))"

section \<open>Captured callables and actions\<close>

text \<open>
  A \<^verbatim>\<open>CapturedCallable\<close> as \<^verbatim>\<open>table.py\<close> uses it: \<open>cc_name\<close> is
  \<^verbatim>\<open>_function.__name__\<close>, \<open>cc_function\<close> is \<^verbatim>\<open>_function\<close> called with keyword
  arguments, and \<open>cc_arguments\<close> is \<^verbatim>\<open>_arguments\<close>. The object a call returns is given
  by its attributes; the call may raise instead.
\<close>

type_synonym py_object = "(string \<times> pyval) list"


record CapturedCallable =
  cc_name :: string
  cc_function :: "(string \<times> arg) list \<Rightarrow> exn + py_object"
  cc_arguments :: "(string \<times> arg) list"

text \<open>
  Modelled from the spec: \<^verbatim>\<open>CapturedCallable.__getitem__\<close> lives in
  \<^verbatim>\<open>vizro.models.types\<close>, which is not among the source files. It returns the argument
  of the captured callable bound under the given name, and a missing name is a
  \<^verbatim>\<open>KeyError\<close>.
\<close>

definition CapturedCallable_getitem :: "CapturedCallable \<Rightarrow> string \<Rightarrow> exn + arg" where
  "CapturedCallable_getitem cc arg_name =
     (case map_of (cc_arguments cc) arg_name of
        None \<Rightarrow> Inl KeyError
      | Some v \<Rightarrow> Inr v)"

record Action =
  action_function :: CapturedCallable

section \<open>The Table model\<close>

subsection \<open>Declaration\<close>

text \<open>
  The class body of \<^verbatim>\<open>Table\<close> (lines 36 to 44) as data: each public field with its
  annotation and its default, and the private attributes. \<open>Required\<close> is the ellipsis
  default of \<^verbatim>\<open>Field(...)\<close>.
\<close>

datatype annotation =
    Literal string
  | StrT
  | CapturedCallableT
  | ModelT string
  | ListT annotation

datatype default_value =
    Required
  | DefaultStr string
  | DefaultEmptyList
  | NoDefault

record field_decl =
  field_name :: string
  field_annotation :: annotation
  field_default :: default_value

definition Table_declared_fields :: "field_decl list" where
  "Table_declared_fields =
     [\<lparr>field_name = ''type'', field_annotation = Literal ''table'',
       field_default = DefaultStr ''table''\<rparr>,
      \<lparr>field_name = ''figure'', field_annotation = CapturedCallableT,
       field_default = Required\<rparr>,
      \<lparr>field_name = ''title'', field_annotation = StrT,
       field_default = DefaultStr ''''\<rparr>,
      \<lparr>field_name = ''actions'', field_annotation = ListT (ModelT ''Action''),
       field_default = DefaultEmptyList\<rparr>]"

definition Table_private_attributes :: "field_decl list" where
  "Table_private_attributes =
     [\<lparr>field_name = ''_callable_object_id'', field_annotation = StrT,
       field_default = NoDefault\<rparr>,
      \<lparr>field_name = ''_output_property'', field_annotation = StrT,
       field_default = DefaultStr ''children''\<rparr>]"

text \<open>
  Modelled from the spec: \<^verbatim>\<open>VizroBaseModel\<close> is not among the source files. The spec
  lists one field that \<^verbatim>\<open>Table\<close> takes from it, the string \<^verbatim>\<open>id\<close>; its default
  is left open as a parameter.
\<close>

definition VizroBaseModel_fields :: "default_value \<Rightarrow> field_decl list" where
  "VizroBaseModel_fields d =
     [\<lparr>field_name = ''id'', field_annotation = StrT, field_default = d\<rparr>]"

text \<open>A subclass has the fields of its base followed by its own.\<close>

definition Table_fields :: "default_value \<Rightarrow> field_decl list" where
  "Table_fields d = VizroBaseModel_fields d @ Table_declared_fields"

definition default_of :: "field_decl list \<Rightarrow> string \<Rightarrow> default_value option" where
  "default_of decls name = map_option field_default (find (\<lambda>f. field_name f = name) decls)"

definition annotation_of :: "field_decl list \<Rightarrow> string \<Rightarrow> annotation option" where
  "annotation_of decls name =
     map_option field_annotation (find (\<lambda>f. field_name f = name) decls)"

subsection \<open>Instances\<close>

text \<open>
  A \<^verbatim>\<open>Table\<close> instance. \<open>callable_object_id\<close> is the private attribute
  \<^verbatim>\<open>_callable_object_id\<close>, which has no default: \<open>None\<close> means the attribute is not
  set, so that \<^verbatim>\<open>hasattr(self, "_callable_object_id")\<close> is false.
\<close>

record Table =
  id :: string
  type :: string
  figure :: CapturedCallable
  title :: string
  actions :: "Action list"
  callable_object_id :: "pyval option"
  output_property :: string

text \<open>
  \<^verbatim>\<open>Table(id=i, figure=fig)\<close>: every other field takes its declared default and the
  private attribute without a default stays unset.
\<close>

definition Table_new :: "string \<Rightarrow> CapturedCallable \<Rightarrow> Table" where
  "Table_new i fig =
     \<lparr>id = i, type = ''table'', figure = fig, title = '''', actions = [],
      callable_object_id = None, output_property = ''children''\<rparr>"

subsection \<open>\<^verbatim>\<open>__getitem__\<close>\<close>

definition Table_getitem :: "Table \<Rightarrow> string \<Rightarrow> exn + arg" where
  "Table_getitem self arg_name =
     (if arg_name = ''type'' then Inr (Val (PStr (type self)))
      else CapturedCallable_getitem (figure self) arg_name)"

subsection \<open>\<^verbatim>\<open>pre_build\<close>\<close>




subsection \<open>\<^verbatim>\<open>_filter_interaction\<close>\<close>

text \<open>
  The entries of \<^verbatim>\<open>ctd_filter_interaction\<close> are \<^verbatim>\<open>CallbackTriggerDict\<close>s, typed
  dicts of which the method reads the keys \<^verbatim>\<open>id\<close> and \<^verbatim>\<open>value\<close>.
\<close>

record CallbackTriggerDict =
  ctd_id :: pyval
  ctd_value :: pyval

text \<open>
  The loop of lines 89 to 95 over the source table's actions. The row selection of
  pandas, \<^verbatim>\<open>data_frame[data_frame[column].isin([clicked_data])]\<close>, belongs to an
  external library and is the parameter \<open>isin\<close>.
\<close>

fun filter_interaction_loop ::
  "(DataFrame \<Rightarrow> pyval \<Rightarrow> pyval \<Rightarrow> exn + DataFrame) \<Rightarrow> CallbackTriggerDict \<Rightarrow>
   CallbackTriggerDict \<Rightarrow> string \<Rightarrow> Action list \<Rightarrow> DataFrame \<Rightarrow> exn + DataFrame" where
  "filter_interaction_loop isin ctd_active_cell ctd_derived_viewport_data target []
     data_frame = Inr data_frame"
| "filter_interaction_loop isin ctd_active_cell ctd_derived_viewport_data target
     (action # rest) data_frame =
     (if cc_name (action_function action) \<noteq> ''filter_interaction''
      then filter_interaction_loop isin ctd_active_cell ctd_derived_viewport_data target
             rest data_frame
      else
        case CapturedCallable_getitem (action_function action) ''targets'' of
          Inl e \<Rightarrow> Inl e
        | Inr targets \<Rightarrow>
        (case py_contains targets target of
          Inl e \<Rightarrow> Inl e
        | Inr found \<Rightarrow>
        if \<not> found
        then filter_interaction_loop isin ctd_active_cell ctd_derived_viewport_data target
               rest data_frame
        else
        (case py_getitem (ctd_value ctd_active_cell) (PStr ''column_id'') of
          Inl e \<Rightarrow> Inl e
        | Inr column \<Rightarrow>
        (case py_getitem (ctd_value ctd_active_cell) (PStr ''row'') of
          Inl e \<Rightarrow> Inl e
        | Inr derived_viewport_data_row \<Rightarrow>
        (case py_getitem (ctd_value ctd_derived_viewport_data) derived_viewport_data_row of
          Inl e \<Rightarrow> Inl e
        | Inr viewport_row \<Rightarrow>
        (case py_getitem viewport_row column of
          Inl e \<Rightarrow> Inl e
        | Inr clicked_data \<Rightarrow>
        (case isin data_frame column clicked_data of
          Inl e \<Rightarrow> Inl e
        | Inr data_frame' \<Rightarrow>
            filter_interaction_loop isin ctd_active_cell ctd_derived_viewport_data target
              rest data_frame')))))))"

text \<open>
  Lines 81 to 97. \<open>get_actions\<close> stands for
  \<^verbatim>\<open>_get_component_actions(_get_parent_vizro_model(...))\<close>, helpers of
  \<^verbatim>\<open>vizro.actions._actions_utils\<close> that are not among the source files: given the id of
  the underlying table it yields the actions of the enclosing \<^verbatim>\<open>Table\<close>, or raises.
\<close>

definition Table_filter_interaction ::
  "(pyval \<Rightarrow> exn + Action list) \<Rightarrow> (DataFrame \<Rightarrow> pyval \<Rightarrow> pyval \<Rightarrow> exn + DataFrame) \<Rightarrow>
   DataFrame \<Rightarrow> string \<Rightarrow> (string \<rightharpoonup> CallbackTriggerDict) \<Rightarrow> exn + DataFrame" where
  "Table_filter_interaction get_actions isin data_frame target ctd_filter_interaction =
     (case ctd_filter_interaction ''active_cell'' of
        None \<Rightarrow> Inl KeyError
      | Some ctd_active_cell \<Rightarrow>
     (case ctd_filter_interaction ''derived_viewport_data'' of
        None \<Rightarrow> Inl KeyError
      | Some ctd_derived_viewport_data \<Rightarrow>
          if \<not> truthy (ctd_value ctd_active_cell)
             \<or> \<not> truthy (ctd_value ctd_derived_viewport_data)
          then Inr data_frame
          else
            (case get_actions (ctd_id ctd_active_cell) of
               Inl e \<Rightarrow> Inl e
             | Inr source_table_actions \<Rightarrow>
                 filter_interaction_loop isin ctd_active_cell ctd_derived_viewport_data
                   target source_table_actions data_frame)))"

text \<open>
  A small instance of the row selection, for running the method on concrete frames:
  the column must be one of the frame's string labels, and the rows kept are those whose
  cell in that column equals the clicked value.
\<close>

fun index_of :: "'a \<Rightarrow> 'a list \<Rightarrow> nat option" where
  "index_of x [] = None"
| "index_of x (y # ys) = (if x = y then Some 0 else map_option Suc (index_of x ys))"

definition DataFrame_isin :: "DataFrame \<Rightarrow> pyval \<Rightarrow> pyval \<Rightarrow> exn + DataFrame" where
  "DataFrame_isin df column clicked_data =
     (case column of
        PStr c \<Rightarrow>
          (case index_of c (columns df) of
             None \<Rightarrow> Inl KeyError
           | Some i \<Rightarrow>
               Inr (df\<lparr>rows := filter (\<lambda>r. i < length r \<and> r ! i = clicked_data) (rows df)\<rparr>))
      | _ \<Rightarrow> Inl KeyError)"

section \<open>The base model: extending a discriminated union\<close>

text \<open>
  Modelled from the spec: \<^verbatim>\<open>VizroBaseModel\<close> and its class method
  \<^verbatim>\<open>add_type\<close> are not among the source files; only their tests in
  \<^verbatim>\<open>test_base.py\<close> are. The spec describes a base model with a tagged union field
  whose concrete type is selected by a literal \<^verbatim>\<open>type\<close> tag, to which new child
  types can be registered at runtime; the tag must match one of the registered variants,
  registering a duplicate tag errors, and extending a field that is not a discriminated
  union is a precondition error. The definitions of this section follow those words and
  the fixtures of the test file. \<^verbatim>\<open>Optional\<close> fields and forward references are
  outside the model.
\<close>

text \<open>A child model class: its name and the literal of its \<^verbatim>\<open>type\<close> field.\<close>

record model_class =
  class_name :: string
  type_tag :: string

text \<open>
  What a caller passes for a child: a model instance, or a plain dict of strings. What a
  field receives is one child or a list of children, and what it holds after validation
  is the class of each child built.
\<close>

datatype child_value = Instance model_class | Dict "(string \<times> string) list"

datatype field_value = Single child_value | Many "child_value list"

datatype validated = VSingle model_class | VMany "model_class list"

datatype field_shape = SHAPE_SINGLETON | SHAPE_LIST

text \<open>
  A union field of a parent model: a single child or a list of children, annotated with
  the discriminator \<^verbatim>\<open>type\<close> or not, over the registered variants.
\<close>

record model_field =
  shape :: field_shape
  discriminated :: bool
  variants :: "model_class list"

record model_cls =
  cls_name :: string
  cls_fields :: "(string \<times> model_field) list"

definition quoted :: "string \<Rightarrow> string" where
  "quoted s = CHR 0x27 # s @ [CHR 0x27]"

text \<open>
  Modelled from the spec: the tag of a value is the \<^verbatim>\<open>type\<close> attribute of an
  instance or the \<^verbatim>\<open>type\<close> entry of a dict.
\<close>

definition discriminator_value :: "child_value \<Rightarrow> string option" where
  "discriminator_value v =
     (case v of Instance c \<Rightarrow> Some (type_tag c) | Dict kvs \<Rightarrow> map_of kvs ''type'')"

text \<open>
  Modelled from the spec: the tag selects the variant; a tag that matches no registered
  variant is the failure that the tests match as
  \<^verbatim>\<open>No match for discriminator 'type' and value ...\<close>.
\<close>

definition validate_discriminated_union ::
  "model_class list \<Rightarrow> child_value \<Rightarrow> validation_failure list + model_class" where
  "validate_discriminated_union vs v =
     (case discriminator_value v of
        None \<Rightarrow> Inl [MissingDiscriminator ''type'']
      | Some tag \<Rightarrow>
          (case find (\<lambda>c. type_tag c = tag) vs of
             None \<Rightarrow> Inl [InvalidDiscriminator ''type'' tag]
           | Some c \<Rightarrow> Inr c))"

text \<open>
  Modelled from the spec: a union without a discriminator tries its variants in order
  and takes the first whose literal admits the value.
\<close>

definition accepts :: "model_class \<Rightarrow> child_value \<Rightarrow> bool" where
  "accepts c v =
     (case discriminator_value v of None \<Rightarrow> True | Some tag \<Rightarrow> tag = type_tag c)"

definition validate_plain_union ::
  "model_class list \<Rightarrow> child_value \<Rightarrow> validation_failure list + model_class" where
  "validate_plain_union vs v =
     (case find (\<lambda>c. accepts c v) vs of
        None \<Rightarrow> Inl (map (\<lambda>c. UnexpectedValue (type_tag c)) vs)
      | Some c \<Rightarrow> Inr c)"

definition validate_child ::
  "model_field \<Rightarrow> child_value \<Rightarrow> validation_failure list + model_class" where
  "validate_child field v =
     (if discriminated field then validate_discriminated_union (variants field) v
      else validate_plain_union (variants field) v)"

fun validate_children ::
  "model_field \<Rightarrow> child_value list \<Rightarrow> validation_failure list + model_class list" where
  "validate_children field [] = Inr []"
| "validate_children field (v # vs) =
     (case (validate_child field v, validate_children field vs) of
        (Inr c, Inr cs) \<Rightarrow> Inr (c # cs)
      | (Inl e, Inr cs) \<Rightarrow> Inl e
      | (Inr c, Inl es) \<Rightarrow> Inl es
      | (Inl e, Inl es) \<Rightarrow> Inl (e @ es))"

fun validate_field ::
  "model_field \<Rightarrow> field_value \<Rightarrow> validation_failure list + validated" where
  "validate_field field (Single v) =
     (case shape field of
        SHAPE_SINGLETON \<Rightarrow>
          (case validate_child field v of Inl es \<Rightarrow> Inl es | Inr c \<Rightarrow> Inr (VSingle c))
      | SHAPE_LIST \<Rightarrow> Inl [NotAValidList])"
| "validate_field field (Many vs) =
     (case shape field of
        SHAPE_SINGLETON \<Rightarrow> Inl [NotAValidDict]
      | SHAPE_LIST \<Rightarrow>
          (case validate_children field vs of Inl es \<Rightarrow> Inl es | Inr cs \<Rightarrow> Inr (VMany cs)))"

text \<open>
  Modelled from the spec: constructing a model validates every union field against the
  keyword argument of its name and raises one \<open>ValidationError\<close> with all failures.
\<close>

fun validate_model ::
  "(string \<times> model_field) list \<Rightarrow> (string \<rightharpoonup> field_value) \<Rightarrow>
   (string \<times> validation_failure) list \<times> (string \<times> validated) list" where
  "validate_model [] kwargs = ([], [])"
| "validate_model ((name, field) # rest) kwargs =
     (let (errors, values) = validate_model rest kwargs in
      case kwargs name of
        None \<Rightarrow> ((name, FieldRequired) # errors, values)
      | Some v \<Rightarrow>
          (case validate_field field v of
             Inl es \<Rightarrow> (map (Pair name) es @ errors, values)
           | Inr x \<Rightarrow> (errors, (name, x) # values)))"

definition model_init ::
  "model_cls \<Rightarrow> (string \<rightharpoonup> field_value) \<Rightarrow> exn + (string \<times> validated) list" where
  "model_init cls kwargs =
     (case validate_model (cls_fields cls) kwargs of
        ([], values) \<Rightarrow> Inr values
      | (e # es, values) \<Rightarrow> Inl (ValidationError (e # es)))"

definition add_to_discriminated_union :: "model_field \<Rightarrow> model_class \<Rightarrow> model_field" where
  "add_to_discriminated_union field new_type =
     field\<lparr>variants := variants field @ [new_type]\<rparr>"

text \<open>
  Modelled from the spec: \<^verbatim>\<open>add_type(field_name, new_type)\<close>. It changes the class,
  so the result is the exception raised, if any, together with the class afterwards.
\<close>

definition add_type :: "model_cls \<Rightarrow> string \<Rightarrow> model_class \<Rightarrow> exn option \<times> model_cls" where
  "add_type cls name new_type =
     (case map_of (cls_fields cls) name of
        None \<Rightarrow> (Some KeyError, cls)
      | Some field \<Rightarrow>
          if \<not> discriminated field
          then (Some (ValueError
                  (''Field '' @ quoted name @ '' must be a discriminated union'')), cls)
          else if type_tag new_type \<in> set (map type_tag (variants field))
          then (Some (Raised ''duplicate discriminator value''), cls)
          else (None, cls\<lparr>cls_fields :=
                  AList.update name (add_to_discriminated_union field new_type)
                    (cls_fields cls)\<rparr>))"

text \<open>
  Whether every field of a class other than the named one validates the keyword
  argument of its own name.
\<close>

definition other_fields_valid ::
  "model_cls \<Rightarrow> string \<Rightarrow> (string \<rightharpoonup> field_value) \<Rightarrow> bool" where
  "other_fields_valid cls name kwargs =
     list_all (\<lambda>(n, f). n = name \<or>
                 (case kwargs n of
                    None \<Rightarrow> False
                  | Some w \<Rightarrow> (case validate_field f w of Inl es \<Rightarrow> False | Inr y \<Rightarrow> True)))
       (cls_fields cls)"

section \<open>Concrete inputs\<close>

subsection \<open>Tables\<close>

text \<open>
  A table callable that builds an object carrying the id it was given, and one whose
  object has no id.
\<close>

definition figure_with_id :: CapturedCallable where
  "figure_with_id =
     \<lparr>cc_name = ''dash_data_table'',
      cc_function = (\<lambda>kwargs. Inr [(''id'', PStr ''underlying_table'')]),
      cc_arguments = [(''data_frame'', Val (PStr ''iris'')), (''type'', Val (PStr ''bar''))]\<rparr>"

definition figure_without_id :: CapturedCallable where
  "figure_without_id =
     \<lparr>cc_name = ''dash_data_table'',
      cc_function = (\<lambda>kwargs. Inr []),
      cc_arguments = [(''data_frame'', Val (PStr ''iris''))]\<rparr>"

definition filter_interaction_action :: Action where
  "filter_interaction_action =
     \<lparr>action_function =
        \<lparr>cc_name = ''filter_interaction'',
         cc_function = (\<lambda>kwargs. Inr []),
         cc_arguments = [(''targets'', Val (PList [PStr ''scatter'']))]\<rparr>\<rparr>"

text \<open>
  A table on which an earlier \<^verbatim>\<open>pre_build\<close> stored an id and whose figure has since
  been replaced by one without an id.
\<close>

definition stale_table :: Table where
  "stale_table =
     (Table_new ''table'' figure_without_id)
       \<lparr>actions := [filter_interaction_action],
        callable_object_id := Some (PStr ''underlying_table'')\<rparr>"

definition fresh_table :: Table where
  "fresh_table = (Table_new ''table'' figure_without_id)\<lparr>actions := [filter_interaction_action]\<rparr>"

definition iris_frame :: DataFrame where
  "iris_frame =
     \<lparr>columns = [''species'', ''petals''],
      rows = [[PStr ''setosa'', PInt 1], [PStr ''virginica'', PInt 2],
              [PStr ''setosa'', PInt 3]]\<rparr>"

definition viewport_data :: pyval where
  "viewport_data =
     PList [PDict [(''species'', PStr ''setosa''), (''petals'', PInt 1)],
            PDict [(''species'', PStr ''virginica''), (''petals'', PInt 2)]]"

definition clicked_cell :: CallbackTriggerDict where
  "clicked_cell =
     \<lparr>ctd_id = PStr ''underlying_table'',
      ctd_value = PDict [(''row'', PInt 0), (''column'', PInt 0),
                         (''column_id'', PStr ''species'')]\<rparr>"

definition no_cell :: CallbackTriggerDict where
  "no_cell = \<lparr>ctd_id = PStr ''underlying_table'', ctd_value = PNone\<rparr>"

definition viewport :: CallbackTriggerDict where
  "viewport = \<lparr>ctd_id = PStr ''underlying_table'', ctd_value = viewport_data\<rparr>"

definition ctd_clicked :: "string \<rightharpoonup> CallbackTriggerDict" where
  "ctd_clicked = [''active_cell'' \<mapsto> clicked_cell, ''derived_viewport_data'' \<mapsto> viewport]"

definition ctd_not_clicked :: "string \<rightharpoonup> CallbackTriggerDict" where
  "ctd_not_clicked = [''active_cell'' \<mapsto> no_cell, ''derived_viewport_data'' \<mapsto> viewport]"

definition table_actions :: "pyval \<Rightarrow> exn + Action list" where
  "table_actions underlying_id = Inr [filter_interaction_action]"

subsection \<open>The models of the test file\<close>

definition ChildX :: model_class where
  "ChildX = \<lparr>class_name = ''ChildX'', type_tag = ''child_x''\<rparr>"

definition ChildY :: model_class where
  "ChildY = \<lparr>class_name = ''ChildY'', type_tag = ''child_y''\<rparr>"

definition ChildZ :: model_class where
  "ChildZ = \<lparr>class_name = ''ChildZ'', type_tag = ''child_Z''\<rparr>"

definition ChildType :: "model_class list" where
  "ChildType = [ChildX, ChildY]"

definition Parent :: model_cls where
  "Parent =
     \<lparr>cls_name = ''_Parent'',
      cls_fields = [(''child'', \<lparr>shape = SHAPE_SINGLETON, discriminated = True,
                                 variants = ChildType\<rparr>)]\<rparr>"

definition ParentWithList :: model_cls where
  "ParentWithList =
     \<lparr>cls_name = ''_ParentWithList'',
      cls_fields = [(''child'', \<lparr>shape = SHAPE_LIST, discriminated = True,
                                 variants = ChildType\<rparr>)]\<rparr>"

text \<open>
  A parent with two union fields, as a page has its components and its controls.
\<close>

definition ParentWithTwoFields :: model_cls where
  "ParentWithTwoFields =
     \<lparr>cls_name = ''_ParentWithTwoFields'',
      cls_fields = [(''child'', \<lparr>shape = SHAPE_SINGLETON, discriminated = True,
                                 variants = ChildType\<rparr>),
                    (''children'', \<lparr>shape = SHAPE_LIST, discriminated = True,
                                    variants = ChildType\<rparr>)]\<rparr>"

definition ParentWithNonDiscriminatedUnion :: model_cls where
  "ParentWithNonDiscriminatedUnion =
     \<lparr>cls_name = ''_ParentWithNonDiscriminatedUnion'',
      cls_fields = [(''child'', \<lparr>shape = SHAPE_SINGLETON, discriminated = False,
                                 variants = ChildType\<rparr>)]\<rparr>"

section \<open>Shared lemmas\<close>

lemma find_append_fresh:
  "\<forall>x \<in> set xs. \<not> P x \<Longrightarrow> P y \<Longrightarrow> find P (xs @ [y]) = Some y"
  by (induction xs) auto

lemma find_none_fresh:
  "\<forall>x \<in> set xs. \<not> P x \<Longrightarrow> find P xs = None"
  by (induction xs) auto

lemma find_append_old:
  "find P xs = Some x \<Longrightarrow> find P (xs @ ys) = Some x"
  by (induction xs) (auto split: if_splits)

lemma find_append_cases:
  "find P (xs @ [y]) = Some c \<Longrightarrow> find P xs = Some c \<or> (find P xs = None \<and> P y \<and> c = y)"
  by (induction xs) (auto split: if_splits)

lemma validate_children_iff:
  "validate_children field vs = Inr cs
     \<longleftrightarrow> list_all2 (\<lambda>v c. validate_child field v = Inr c) vs cs"
proof (induction vs arbitrary: cs)
  case Nil
  then show ?case by auto
next
  case (Cons v vs)
  show ?case
  proof (cases "validate_child field v")
    case (Inl e)
    then show ?thesis
      by (cases "validate_children field vs") (auto simp: list_all2_Cons1)
  next
    case (Inr c)
    show ?thesis
    proof (cases "validate_children field vs")
      case (Inl es)
      with Inr Cons.IH show ?thesis
        by (auto simp: list_all2_Cons1)
    next
      case r: (Inr cs')
      with Inr Cons.IH show ?thesis
        by (auto simp: list_all2_Cons1)
    qed
  qed
qed

lemma validate_children_rejects:
  "v \<in> set vs \<Longrightarrow> validate_child field v = Inl es \<Longrightarrow> e \<in> set es \<Longrightarrow>
   \<exists>es'. validate_children field vs = Inl es' \<and> e \<in> set es'"
proof (induction vs)
  case Nil
  then show ?case by simp
next
  case (Cons w ws)
  show ?case
  proof (cases "v = w")
    case True
    with Cons.prems show ?thesis
      by (cases "validate_children field ws") auto
  next
    case False
    with Cons obtain es' where "validate_children field ws = Inl es'" "e \<in> set es'"
      by auto
    then show ?thesis
      by (cases "validate_child field w") auto
  qed
qed

lemma validate_model_errors:
  "(name, field) \<in> set fs \<Longrightarrow> kwargs name = Some v \<Longrightarrow> validate_field field v = Inl es \<Longrightarrow>
   e \<in> set es \<Longrightarrow> (name, e) \<in> set (fst (validate_model fs kwargs))"
proof (induction fs)
  case Nil
  then show ?case by simp
next
  case (Cons p fs)
  obtain n f where p: "p = (n, f)" by (cases p)
  show ?case
  proof (cases "(name, field) = (n, f)")
    case True
    with Cons.prems p show ?thesis
      by (auto simp: split_beta)
  next
    case False
    with Cons p have "(name, e) \<in> set (fst (validate_model fs kwargs))"
      by auto
    then show ?thesis
      using p by (auto simp: split_beta split: option.splits sum.splits)
  qed
qed

lemma validate_model_ok:
  "\<forall>(n, f) \<in> set fs. \<exists>w y. kwargs n = Some w \<and> validate_field f w = Inr y \<Longrightarrow>
   fst (validate_model fs kwargs) = [] \<and> map fst (snd (validate_model fs kwargs)) = map fst fs"
proof (induction fs)
  case Nil
  then show ?case by simp
next
  case (Cons p fs)
  obtain n f where p: "p = (n, f)" by (cases p)
  from Cons p show ?case
    by (auto simp: split_beta split: option.splits sum.splits)
qed

lemma validate_model_value:
  "\<forall>(n, f) \<in> set fs. \<exists>w y. kwargs n = Some w \<and> validate_field f w = Inr y \<Longrightarrow>
   map_of fs name = Some field \<Longrightarrow> kwargs name = Some v \<Longrightarrow> validate_field field v = Inr x \<Longrightarrow>
   map_of (snd (validate_model fs kwargs)) name = Some x"
proof (induction fs)
  case Nil
  then show ?case by simp
next
  case (Cons p fs)
  obtain n f where p: "p = (n, f)" by (cases p)
  from Cons p show ?case
    by (auto simp: split_beta split: option.splits sum.splits if_splits)
qed

lemma set_update_distinct:
  "distinct (map fst fs) \<Longrightarrow> (n, f) \<in> set (AList.update name field' fs) \<Longrightarrow>
   (n = name \<and> f = field') \<or> (n \<noteq> name \<and> (n, f) \<in> set fs)"
proof (induction fs)
  case Nil
  then show ?case by simp
next
  case (Cons p fs)
  obtain k g where p: "p = (k, g)" by (cases p)
  from Cons p show ?case
    by (auto split: if_splits simp: rev_image_eqI)
qed


lemmas union_examples =
  ChildX_def ChildY_def ChildZ_def ChildType_def Parent_def ParentWithList_def
  ParentWithNonDiscriminatedUnion_def ParentWithTwoFields_def

lemma model_init_ok:
  assumes ok: "\<forall>(n, f) \<in> set (cls_fields cls). \<exists>w y. kwargs n = Some w \<and> validate_field f w = Inr y"
    and f: "map_of (cls_fields cls) name = Some field"
    and k: "kwargs name = Some v" and x: "validate_field field v = Inr x"
  shows "\<exists>values. model_init cls kwargs = Inr values
           \<and> map fst values = map fst (cls_fields cls) \<and> map_of values name = Some x"
proof -
  obtain errs vals where vm: "validate_model (cls_fields cls) kwargs = (errs, vals)"
    by (cases "validate_model (cls_fields cls) kwargs")
  from ok vm validate_model_ok [of "cls_fields cls" kwargs]
  have e: "errs = []" and m: "map fst vals = map fst (cls_fields cls)"
    by simp_all
  from ok f k x vm validate_model_value [of "cls_fields cls" kwargs name field v x]
  have "map_of vals name = Some x"
    by simp
  with e m vm show ?thesis
    by (simp add: model_init_def)
qed

lemma model_init_rejects:
  assumes f: "map_of (cls_fields cls) name = Some field"
    and k: "kwargs name = Some v" and x: "validate_field field v = Inl es" and e: "e \<in> set es"
  shows "\<exists>errs. model_init cls kwargs = Inl (ValidationError errs) \<and> (name, e) \<in> set errs"
proof -
  obtain errs vals where vm: "validate_model (cls_fields cls) kwargs = (errs, vals)"
    by (cases "validate_model (cls_fields cls) kwargs")
  from f have "(name, field) \<in> set (cls_fields cls)"
    by (rule map_of_SomeD)
  with k x e vm validate_model_errors [of name field "cls_fields cls" kwargs v es e]
  have m: "(name, e) \<in> set errs"
    by simp
  then obtain e' es' where "errs = e' # es'"
    by (cases errs) auto
  with vm m show ?thesis
    by (auto simp: model_init_def)
qed

lemma other_fields_validD:
  "other_fields_valid cls name kwargs \<Longrightarrow> (n, f) \<in> set (cls_fields cls) \<Longrightarrow> n \<noteq> name \<Longrightarrow>
   \<exists>w y. kwargs n = Some w \<and> validate_field f w = Inr y"
proof -
  assume v: "other_fields_valid cls name kwargs" and m: "(n, f) \<in> set (cls_fields cls)"
    and n: "n \<noteq> name"
  from v m have "n = name \<or>
      (case kwargs n of
         None \<Rightarrow> False
       | Some w \<Rightarrow> (case validate_field f w of Inl es \<Rightarrow> False | Inr y \<Rightarrow> True))"
    unfolding other_fields_valid_def list_all_iff by fastforce
  with n show ?thesis
    by (auto split: option.splits sum.splits)
qed

lemmas validation_defs =
  model_init_def add_type_def add_to_discriminated_union_def validate_child_def
  validate_discriminated_union_def discriminator_value_def

lemmas table_examples =
  figure_with_id_def figure_without_id_def filter_interaction_action_def stale_table_def
  fresh_table_def Table_new_def

lemmas callback_examples =
  iris_frame_def viewport_data_def clicked_cell_def no_cell_def viewport_def ctd_clicked_def
  ctd_not_clicked_def table_actions_def filter_interaction_action_def

section \<open>The Table model: checked properties\<close>




text \<open>
  Claim C7. The \<^verbatim>\<open>Table\<close> model has exactly the fields \<^verbatim>\<open>id\<close> (from the base
  model), \<^verbatim>\<open>type\<close>, \<^verbatim>\<open>figure\<close>, \<^verbatim>\<open>title\<close> and \<^verbatim>\<open>actions\<close>; the type is the
  literal \<^verbatim>\<open>"table"\<close> and defaults to it, the figure is required, the title defaults to
  the empty string and the actions to the empty list; and a table built from an id and a
  figure alone carries these defaults.
\<close>

theorem Table_declaration:
  "map field_name (Table_fields d) = [''id'', ''type'', ''figure'', ''title'', ''actions'']
   \<and> annotation_of (Table_fields d) ''type'' = Some (Literal ''table'')
   \<and> default_of (Table_fields d) ''type'' = Some (DefaultStr ''table'')
   \<and> default_of (Table_fields d) ''figure'' = Some Required
   \<and> default_of (Table_fields d) ''title'' = Some (DefaultStr '''')
   \<and> annotation_of (Table_fields d) ''actions'' = Some (ListT (ModelT ''Action''))
   \<and> default_of (Table_fields d) ''actions'' = Some DefaultEmptyList
   \<and> type (Table_new i fig) = ''table''
   \<and> title (Table_new i fig) = ''''
   \<and> actions (Table_new i fig) = []"
  by (simp add: Table_fields_def VizroBaseModel_fields_def Table_declared_fields_def
      default_of_def annotation_of_def Table_new_def)

text \<open>
  Claim C8. When the \<^verbatim>\<open>active_cell\<close> value or the \<^verbatim>\<open>derived_viewport_data\<close>
  value of the callback trigger dict is falsy, \<^verbatim>\<open>_filter_interaction\<close> returns the
  input data frame unchanged, whatever the actions and the row selection are; and a
  returned data frame that differs from the input implies that both values were truthy.
\<close>

theorem filter_interaction_guard:
  "(ctd ''active_cell'' = Some cell \<and> ctd ''derived_viewport_data'' = Some view
      \<and> (\<not> truthy (ctd_value cell) \<or> \<not> truthy (ctd_value view))
     \<longrightarrow> Table_filter_interaction get_actions isin data_frame target ctd = Inr data_frame)
   \<and> (Table_filter_interaction get_actions isin data_frame target ctd = Inr data_frame'
        \<and> data_frame' \<noteq> data_frame
     \<longrightarrow> (\<exists>cell view. ctd ''active_cell'' = Some cell
            \<and> ctd ''derived_viewport_data'' = Some view
            \<and> truthy (ctd_value cell) \<and> truthy (ctd_value view)))"
  by (auto simp: Table_filter_interaction_def split: option.splits if_splits)

text \<open>
  Without a clicked cell the frame comes back as it was; with a click on the species of
  the first viewport row, the rows of that species are kept.
\<close>

theorem filter_interaction_guard_witness:
  "Table_filter_interaction table_actions DataFrame_isin iris_frame ''scatter'' ctd_not_clicked
     = Inr iris_frame
   \<and> Table_filter_interaction table_actions DataFrame_isin iris_frame ''scatter'' ctd_clicked
     = Inr (iris_frame\<lparr>rows := [[PStr ''setosa'', PInt 1], [PStr ''setosa'', PInt 3]]\<rparr>)
   \<and> iris_frame\<lparr>rows := [[PStr ''setosa'', PInt 1], [PStr ''setosa'', PInt 3]]\<rparr> \<noteq> iris_frame
   \<and> truthy (ctd_value clicked_cell) \<and> truthy (ctd_value viewport)"
proof -
  have a: "ctd_not_clicked ''active_cell'' = Some no_cell
           \<and> ctd_not_clicked ''derived_viewport_data'' = Some viewport
           \<and> (\<not> truthy (ctd_value no_cell) \<or> \<not> truthy (ctd_value viewport))"
    by (simp add: callback_examples)
  have b: "Table_filter_interaction table_actions DataFrame_isin iris_frame ''scatter''
             ctd_clicked
           = Inr (iris_frame\<lparr>rows := [[PStr ''setosa'', PInt 1], [PStr ''setosa'', PInt 3]]\<rparr>)"
    by (simp add: Table_filter_interaction_def CapturedCallable_getitem_def DataFrame_isin_def
        py_index_def callback_examples)
  have c: "iris_frame\<lparr>rows := [[PStr ''setosa'', PInt 1], [PStr ''setosa'', PInt 3]]\<rparr>
           \<noteq> iris_frame"
    by (simp add: iris_frame_def)
  have d: "truthy (ctd_value clicked_cell) \<and> truthy (ctd_value viewport)"
    by (simp add: callback_examples)
  show ?thesis
    using a b c d
      filter_interaction_guard [of ctd_not_clicked no_cell viewport table_actions
        DataFrame_isin iris_frame "''scatter''"]
    by simp
qed

text \<open>
  Claim C9. \<^verbatim>\<open>Table.__getitem__\<close> with the key \<^verbatim>\<open>"type"\<close> returns the model's own
  type tag, which is \<^verbatim>\<open>"table"\<close> on a table as constructed, and never an argument of
  the figure; with any other key it returns what the figure's own \<^verbatim>\<open>__getitem__\<close>
  returns for that key, the argument of the captured callable.
\<close>

theorem Table_getitem_type:
  "Table_getitem self ''type'' = Inr (Val (PStr (type self)))
   \<and> Table_getitem (Table_new i fig) ''type'' = Inr (Val (PStr ''table''))
   \<and> (\<forall>k. k \<noteq> ''type'' \<longrightarrow>
         Table_getitem self k = CapturedCallable_getitem (figure self) k)
   \<and> (\<forall>k v. k \<noteq> ''type'' \<and> map_of (cc_arguments (figure self)) k = Some v \<longrightarrow>
         Table_getitem self k = Inr v)"
  by (simp add: Table_getitem_def Table_new_def CapturedCallable_getitem_def)

text \<open>
  The figure of this table has an argument that is itself named \<^verbatim>\<open>type\<close>; the table
  still answers with its own tag, and hands out the figure's other argument.
\<close>

theorem Table_getitem_type_witness:
  "Table_getitem (Table_new ''table'' figure_with_id) ''type'' = Inr (Val (PStr ''table''))
   \<and> CapturedCallable_getitem figure_with_id ''type'' = Inr (Val (PStr ''bar''))
   \<and> Table_getitem (Table_new ''table'' figure_with_id) ''data_frame''
       = Inr (Val (PStr ''iris''))
   \<and> Table_getitem (Table_new ''table'' figure_with_id) ''x'' = Inl KeyError"
  using Table_getitem_type [of "Table_new ''table'' figure_with_id" "''table''" figure_with_id]
  by (simp add: CapturedCallable_getitem_def table_examples)

section \<open>The base model: checked properties\<close>

text \<open>
  Claim C2. Let a parent model have a discriminated-union field and let a new child type
  carry a tag that no registered variant has. Then \<^verbatim>\<open>add_type\<close> on that field returns
  normally; the field now has the old variants followed by the new type, and every other
  field of the class is as it was. Before the call an instance of the new type is
  rejected for its tag, by the field and by the constructor of the parent. After the
  call the field validates such an instance to that very class; whatever it accepted
  before it still accepts, with the same result, and it accepts nothing else but values
  carrying the new tag; a list validates exactly when each of its elements does. For
  every parent whose field names are distinct and whose other fields validate their own
  arguments, constructing the extended parent with an instance of the new type (or, for
  a list field, with any list of such instances and of values accepted before) succeeds
  and the field holds the instances; so does constructing it with any value the field
  accepted before.
\<close>

theorem add_type_extends:
  assumes f: "map_of (cls_fields cls) name = Some field"
    and d: "discriminated field"
    and fresh: "type_tag new_type \<notin> set (map type_tag (variants field))"
  shows "add_type cls name new_type =
           (None, cls\<lparr>cls_fields :=
                    AList.update name (field\<lparr>variants := variants field @ [new_type]\<rparr>)
                      (cls_fields cls)\<rparr>)
         \<and> map_of (cls_fields (snd (add_type cls name new_type))) name
             = Some (field\<lparr>variants := variants field @ [new_type]\<rparr>)
         \<and> (\<forall>n. n \<noteq> name \<longrightarrow>
               map_of (cls_fields (snd (add_type cls name new_type))) n
                 = map_of (cls_fields cls) n)
         \<and> validate_child field (Instance new_type)
             = Inl [InvalidDiscriminator ''type'' (type_tag new_type)]
         \<and> validate_child (field\<lparr>variants := variants field @ [new_type]\<rparr>)
               (Instance new_type) = Inr new_type
         \<and> (\<forall>v c. validate_child field v = Inr c \<longrightarrow>
               validate_child (field\<lparr>variants := variants field @ [new_type]\<rparr>) v = Inr c)
         \<and> (\<forall>v c. validate_child (field\<lparr>variants := variants field @ [new_type]\<rparr>) v = Inr c
               \<longrightarrow> validate_child field v = Inr c
                   \<or> (discriminator_value v = Some (type_tag new_type) \<and> c = new_type))
         \<and> (\<forall>vs cs. validate_children (field\<lparr>variants := variants field @ [new_type]\<rparr>) vs
                       = Inr cs
               \<longleftrightarrow> list_all2
                     (\<lambda>v c. validate_child (field\<lparr>variants := variants field @ [new_type]\<rparr>) v
                              = Inr c) vs cs)
         \<and> (\<forall>kwargs. shape field = SHAPE_SINGLETON
               \<and> kwargs name = Some (Single (Instance new_type))
               \<longrightarrow> (\<exists>errs. model_init cls kwargs = Inl (ValidationError errs)
                     \<and> (name, InvalidDiscriminator ''type'' (type_tag new_type)) \<in> set errs))
         \<and> (\<forall>kwargs vs. shape field = SHAPE_LIST
               \<and> kwargs name = Some (Many vs) \<and> Instance new_type \<in> set vs
               \<longrightarrow> (\<exists>errs. model_init cls kwargs = Inl (ValidationError errs)
                     \<and> (name, InvalidDiscriminator ''type'' (type_tag new_type)) \<in> set errs))
         \<and> (\<forall>kwargs. shape field = SHAPE_SINGLETON
               \<and> distinct (map fst (cls_fields cls))
               \<and> other_fields_valid cls name kwargs
               \<and> kwargs name = Some (Single (Instance new_type))
               \<longrightarrow> (\<exists>values. model_init (snd (add_type cls name new_type)) kwargs = Inr values
                     \<and> map fst values = map fst (cls_fields cls)
                     \<and> map_of values name = Some (VSingle new_type)))
         \<and> (\<forall>kwargs vs cs. shape field = SHAPE_LIST
               \<and> distinct (map fst (cls_fields cls))
               \<and> other_fields_valid cls name kwargs
               \<and> kwargs name = Some (Many vs)
               \<and> list_all2 (\<lambda>v c. validate_child field v = Inr c
                                    \<or> (v = Instance new_type \<and> c = new_type)) vs cs
               \<longrightarrow> (\<exists>values. model_init (snd (add_type cls name new_type)) kwargs = Inr values
                     \<and> map fst values = map fst (cls_fields cls)
                     \<and> map_of values name = Some (VMany cs)))
         \<and> (\<forall>kwargs v x. distinct (map fst (cls_fields cls))
               \<and> other_fields_valid cls name kwargs
               \<and> kwargs name = Some v \<and> validate_field field v = Inr x
               \<longrightarrow> (\<exists>values. model_init (snd (add_type cls name new_type)) kwargs = Inr values
                     \<and> map fst values = map fst (cls_fields cls)
                     \<and> map_of values name = Some x))"
proof -
  let ?F = "field\<lparr>variants := variants field @ [new_type]\<rparr>"
  let ?C = "snd (add_type cls name new_type)"
  let ?P = "\<lambda>c. type_tag c = type_tag new_type"
  have a: "add_type cls name new_type =
            (None, cls\<lparr>cls_fields := AList.update name ?F (cls_fields cls)\<rparr>)"
    using f d fresh by (simp add: add_type_def add_to_discriminated_union_def)
  have fs: "cls_fields ?C = AList.update name ?F (cls_fields cls)"
    by (simp add: a)
  have b: "map_of (cls_fields ?C) name = Some ?F"
    by (simp add: fs update_conv')
  have b': "\<forall>n. n \<noteq> name \<longrightarrow> map_of (cls_fields ?C) n = map_of (cls_fields cls) n"
    by (simp add: fs update_conv')
  have dF: "discriminated ?F" and sF: "shape ?F = shape field"
    using d by simp_all
  have nf: "\<forall>c \<in> set (variants field). \<not> ?P c"
    using fresh by (auto simp: image_iff)
  have rej: "validate_child field (Instance new_type)
               = Inl [InvalidDiscriminator ''type'' (type_tag new_type)]"
    using d nf find_none_fresh [of "variants field" ?P]
    by (simp add: validate_child_def validate_discriminated_union_def discriminator_value_def)
  have acc: "validate_child ?F (Instance new_type) = Inr new_type"
    using d nf find_append_fresh [of "variants field" ?P new_type]
    by (simp add: validate_child_def validate_discriminated_union_def discriminator_value_def)
  have old: "validate_child ?F v = Inr c" if "validate_child field v = Inr c" for v c
    using that d
    by (auto simp: validate_child_def validate_discriminated_union_def find_append_old
        split: option.splits)
  have only: "validate_child field v = Inr c
                \<or> (discriminator_value v = Some (type_tag new_type) \<and> c = new_type)"
    if "validate_child ?F v = Inr c" for v c
  proof (cases "discriminator_value v")
    case None
    with that d show ?thesis
      by (simp add: validate_child_def validate_discriminated_union_def)
  next
    case (Some tag)
    with that d have "find (\<lambda>c. type_tag c = tag) (variants field @ [new_type]) = Some c"
      by (simp add: validate_child_def validate_discriminated_union_def split: option.splits)
    from find_append_cases [OF this] Some d show ?thesis
      by (auto simp: validate_child_def validate_discriminated_union_def)
  qed
  have lists: "validate_children ?F vs = Inr cs
                 \<longleftrightarrow> list_all2 (\<lambda>v c. validate_child ?F v = Inr c) vs cs" for vs cs
    by (rule validate_children_iff)
  have single_ok: "validate_field ?F (Single (Instance new_type)) = Inr (VSingle new_type)"
    if "shape field = SHAPE_SINGLETON"
    using that acc by simp
  have many_ok: "validate_field ?F (Many vs) = Inr (VMany cs)"
    if "shape field = SHAPE_LIST"
      and "list_all2 (\<lambda>v c. validate_child field v = Inr c
                              \<or> (v = Instance new_type \<and> c = new_type)) vs cs" for vs cs
  proof -
    have "list_all2 (\<lambda>v c. validate_child ?F v = Inr c) vs cs"
      using that(2) old acc by (auto elim!: list_all2_mono)
    then have "validate_children ?F vs = Inr cs"
      by (simp add: lists)
    with that(1) show ?thesis by simp
  qed
  have old_field: "validate_field ?F v = Inr x" if "validate_field field v = Inr x" for v x
  proof (cases v)
    case (Single w)
    with that old show ?thesis
      by (auto split: field_shape.splits sum.splits)
  next
    case (Many ws)
    show ?thesis
    proof (cases "shape field")
      case SHAPE_SINGLETON
      with that Many show ?thesis by simp
    next
      case SHAPE_LIST
      with that Many obtain cs where cs: "validate_children field ws = Inr cs" "x = VMany cs"
        by (auto split: sum.splits)
      then have "list_all2 (\<lambda>v c. validate_child field v = Inr c) ws cs"
        by (simp add: validate_children_iff)
      then have "list_all2 (\<lambda>v c. validate_child ?F v = Inr c) ws cs"
        using old by (auto elim!: list_all2_mono)
      then have "validate_children ?F ws = Inr cs"
        by (simp add: lists)
      with SHAPE_LIST Many cs show ?thesis by simp
    qed
  qed
  have rej1: "\<exists>errs. model_init cls kwargs = Inl (ValidationError errs)
                \<and> (name, InvalidDiscriminator ''type'' (type_tag new_type)) \<in> set errs"
    if "shape field = SHAPE_SINGLETON" and "kwargs name = Some (Single (Instance new_type))"
    for kwargs
  proof -
    have "validate_field field (Single (Instance new_type))
            = Inl [InvalidDiscriminator ''type'' (type_tag new_type)]"
      using that(1) rej by simp
    with f that(2)
      model_init_rejects [of cls name field kwargs "Single (Instance new_type)"
        "[InvalidDiscriminator ''type'' (type_tag new_type)]"
        "InvalidDiscriminator ''type'' (type_tag new_type)"]
    show ?thesis
      by simp
  qed
  have rej2: "\<exists>errs. model_init cls kwargs = Inl (ValidationError errs)
                \<and> (name, InvalidDiscriminator ''type'' (type_tag new_type)) \<in> set errs"
    if "shape field = SHAPE_LIST" and "kwargs name = Some (Many vs)"
      and "Instance new_type \<in> set vs" for kwargs vs
  proof -
    from validate_children_rejects [OF that(3) rej, of "InvalidDiscriminator ''type'' (type_tag new_type)"]
    obtain es where es: "validate_children field vs = Inl es"
      "InvalidDiscriminator ''type'' (type_tag new_type) \<in> set es"
      by auto
    then have "validate_field field (Many vs) = Inl es"
      using that(1) by simp
    with f that(2) es(2)
      model_init_rejects [of cls name field kwargs "Many vs" es
        "InvalidDiscriminator ''type'' (type_tag new_type)"]
    show ?thesis
      by simp
  qed
  have build: "\<exists>values. model_init ?C kwargs = Inr values
                 \<and> map fst values = map fst (cls_fields cls) \<and> map_of values name = Some x"
    if dist: "distinct (map fst (cls_fields cls))"
      and others: "other_fields_valid cls name kwargs"
      and k: "kwargs name = Some v" and x: "validate_field ?F v = Inr x" for kwargs v x
  proof -
    have ok: "\<forall>(n, g) \<in> set (cls_fields ?C).
                \<exists>w y. kwargs n = Some w \<and> validate_field g w = Inr y"
    proof (clarify)
      fix n g assume "(n, g) \<in> set (cls_fields ?C)"
      then have "(n, g) \<in> set (AList.update name ?F (cls_fields cls))"
        by (simp add: fs)
      from set_update_distinct [OF dist this]
      show "\<exists>w y. kwargs n = Some w \<and> validate_field g w = Inr y"
        using k x other_fields_validD [OF others] by auto
    qed
    have keys: "map fst (cls_fields ?C) = map fst (cls_fields cls)"
      using f by (auto simp: fs update_keys dest: map_of_SomeD intro: rev_image_eqI)
    from ok b k x keys model_init_ok [of ?C kwargs name ?F v x] show ?thesis
      by simp
  qed
  show ?thesis
    apply (intro conjI allI impI)
    subgoal by (rule a)
    subgoal by (rule b)
    subgoal using b' by simp
    subgoal by (rule rej)
    subgoal by (rule acc)
    subgoal by (rule old)
    subgoal by (rule only)
    subgoal by (rule lists)
    subgoal using rej1 by blast
    subgoal using rej2 by blast
    subgoal using build single_ok by blast
    subgoal using build many_ok by blast
    subgoal using build old_field by blast
    done
qed

text \<open>
  The fixtures of the test file: \<^verbatim>\<open>ChildZ\<close> is rejected by \<^verbatim>\<open>Parent\<close> before
  \<^verbatim>\<open>add_type\<close> and accepted after it, \<^verbatim>\<open>ChildX\<close> is accepted as before, a list
  may mix old and new children, and in a parent with two fields only the extended one
  accepts the new type.
\<close>

theorem add_type_extends_witness:
  "fst (add_type Parent ''child'' ChildZ) = None
   \<and> model_init Parent [''child'' \<mapsto> Single (Instance ChildZ)]
       = Inl (ValidationError [(''child'', InvalidDiscriminator ''type'' ''child_Z'')])
   \<and> model_init (snd (add_type Parent ''child'' ChildZ))
        [''child'' \<mapsto> Single (Instance ChildZ)]
       = Inr [(''child'', VSingle ChildZ)]
   \<and> model_init (snd (add_type Parent ''child'' ChildZ))
        [''child'' \<mapsto> Single (Instance ChildX)]
       = Inr [(''child'', VSingle ChildX)]
   \<and> model_init (snd (add_type ParentWithList ''child'' ChildZ))
        [''child'' \<mapsto> Many [Instance ChildX, Instance ChildZ, Dict [(''type'', ''child_y'')]]]
       = Inr [(''child'', VMany [ChildX, ChildZ, ChildY])]
   \<and> model_init (snd (add_type ParentWithTwoFields ''child'' ChildZ))
        [''child'' \<mapsto> Single (Instance ChildZ), ''children'' \<mapsto> Many [Instance ChildY]]
       = Inr [(''child'', VSingle ChildZ), (''children'', VMany [ChildY])]
   \<and> model_init (snd (add_type ParentWithTwoFields ''child'' ChildZ))
        [''child'' \<mapsto> Single (Instance ChildZ), ''children'' \<mapsto> Many [Instance ChildZ]]
       = Inl (ValidationError [(''children'', InvalidDiscriminator ''type'' ''child_Z'')])"
proof -
  let ?field = "\<lparr>shape = SHAPE_SINGLETON, discriminated = True, variants = ChildType\<rparr>"
  let ?kwargs = "[''child'' \<mapsto> Single (Instance ChildZ),
                  ''children'' \<mapsto> Many [Instance ChildY]]"
  have h1: "map_of (cls_fields ParentWithTwoFields) ''child'' = Some ?field"
    by (simp add: ParentWithTwoFields_def)
  have h2: "discriminated ?field"
    by simp
  have h3: "type_tag ChildZ \<notin> set (map type_tag (variants ?field))"
    by (simp add: union_examples)
  have h4: "shape ?field = SHAPE_SINGLETON
            \<and> distinct (map fst (cls_fields ParentWithTwoFields))
            \<and> other_fields_valid ParentWithTwoFields ''child'' ?kwargs
            \<and> ?kwargs ''child'' = Some (Single (Instance ChildZ))"
    by (simp add: other_fields_valid_def union_examples validation_defs)
  have built: "\<exists>vals. model_init (snd (add_type ParentWithTwoFields ''child'' ChildZ)) ?kwargs
                  = Inr vals
               \<and> map fst vals = map fst (cls_fields ParentWithTwoFields)
               \<and> map_of vals ''child'' = Some (VSingle ChildZ)"
    using add_type_extends [OF h1 h2 h3] h4 by blast
  have two: "model_init (snd (add_type ParentWithTwoFields ''child'' ChildZ)) ?kwargs
               = Inr [(''child'', VSingle ChildZ), (''children'', VMany [ChildY])]"
    using built by (simp add: union_examples validation_defs)
  have rest: "fst (add_type Parent ''child'' ChildZ) = None
   \<and> model_init Parent [''child'' \<mapsto> Single (Instance ChildZ)]
       = Inl (ValidationError [(''child'', InvalidDiscriminator ''type'' ''child_Z'')])
   \<and> model_init (snd (add_type Parent ''child'' ChildZ))
        [''child'' \<mapsto> Single (Instance ChildZ)]
       = Inr [(''child'', VSingle ChildZ)]
   \<and> model_init (snd (add_type Parent ''child'' ChildZ))
        [''child'' \<mapsto> Single (Instance ChildX)]
       = Inr [(''child'', VSingle ChildX)]
   \<and> model_init (snd (add_type ParentWithList ''child'' ChildZ))
        [''child'' \<mapsto> Many [Instance ChildX, Instance ChildZ, Dict [(''type'', ''child_y'')]]]
       = Inr [(''child'', VMany [ChildX, ChildZ, ChildY])]
   \<and> model_init (snd (add_type ParentWithTwoFields ''child'' ChildZ))
        [''child'' \<mapsto> Single (Instance ChildZ), ''children'' \<mapsto> Many [Instance ChildZ]]
       = Inl (ValidationError [(''children'', InvalidDiscriminator ''type'' ''child_Z'')])"
    by (simp add: union_examples validation_defs)
  show ?thesis
    using two rest by blast
qed

text \<open>
  Claim C3. \<^verbatim>\<open>add_type\<close> on a field that is a union without a discriminator raises
  the \<^verbatim>\<open>ValueError\<close> saying that the field must be a discriminated union, and the
  class is left as it was: nothing has been registered.
\<close>

theorem add_type_non_discriminated:
  assumes "map_of (cls_fields cls) name = Some field" and "\<not> discriminated field"
  shows "add_type cls name new_type =
           (Some (ValueError (''Field '' @ quoted name @ '' must be a discriminated union'')),
            cls)"
  using assms by (simp add: add_type_def)

theorem add_type_non_discriminated_witness:
  "add_type ParentWithNonDiscriminatedUnion ''child'' ChildZ =
     (Some (ValueError ''Field 'child' must be a discriminated union''),
      ParentWithNonDiscriminatedUnion)"
  using add_type_non_discriminated [of ParentWithNonDiscriminatedUnion "''child''"
      "\<lparr>shape = SHAPE_SINGLETON, discriminated = False, variants = ChildType\<rparr>" ChildZ]
  by (simp add: union_examples quoted_def)

end
